theory Spec2Isabelle
  imports Complex_Main "HOL-Library.AList"
begin

section \<open>The session manager of \<open>sample-python.py\<close>\<close>

text \<open>
  A shallow embedding of \<open>PlayerStats\<close> and \<open>GameSessionManager\<close>
  (\<open>src/test-youtu-agent/sample-python.py\<close>).

  Conventions of the embedding:
  \<^item> Python's unbounded \<open>int\<close> is \<open>int\<close>.
  \<^item> A \<open>datetime\<close> is an \<open>int\<close>, the number of microseconds since a fixed epoch;
    a \<open>timedelta\<close> is an \<open>int\<close> number of microseconds. Every operation takes the
    reading of \<open>datetime.now()\<close> as its argument \<open>now\<close>; the reads made during one
    call are taken to return the same instant.
  \<^item> A \<open>float\<close> is a rational number: \<open>total_seconds()\<close> and \<open>/\<close> are exact.
  \<^item> The dictionary \<open>active_sessions\<close> is an association list in insertion order,
    read with \<open>map_of\<close> and written with \<open>AList.update\<close> (which replaces the value
    of a key in place and appends a new key at the end, as a Python \<open>dict\<close> does).
  \<^item> An exception is a value of type \<open>error\<close>; a call that may raise returns a sum,
    \<open>Inl\<close> the exception. A method of the manager takes the manager and returns the
    manager as it leaves it.
  \<^item> Keyword dictionaries (\<open>player_data\<close>, its \<open>'stats'\<close>, \<open>stat_updates\<close>) are records
    of optional fields, \<open>None\<close> for a key that is absent: the recognised keys with
    integer values.
  \<^item> Calls to \<open>logger\<close> and the \<open>asyncio.Lock\<close> are not part of the state.
\<close>

subsection \<open>Exceptions\<close>

datatype error =
    MaxSessionsReached int
      \<comment> \<open>\<open>RuntimeError(f"Maximum concurrent sessions reached: {max}")\<close>\<close>
  | HealthNegative
      \<comment> \<open>\<open>ValueError("Health cannot be negative")\<close>\<close>
  | LevelTooLow
      \<comment> \<open>\<open>ValueError("Level must be at least 1")\<close>\<close>
  | SessionNotFound string
      \<comment> \<open>\<open>ValueError(f"Session {session_id} not found")\<close>\<close>
  | BodyError string
      \<comment> \<open>an \<open>Exception\<close> raised by the caller's code inside a scope\<close>

subsection \<open>\<open>PlayerStats\<close>\<close>

record PlayerStats =
  health :: int
  mana :: int
  experience :: int
  level :: int
  last_updated :: int

text \<open>The keyword arguments of \<open>PlayerStats(**kwargs)\<close>.\<close>

record stats_kwargs =
  kw_health :: "int option"
  kw_mana :: "int option"
  kw_experience :: "int option"
  kw_level :: "int option"
  kw_last_updated :: "int option"

definition no_kwargs :: stats_kwargs where
  "no_kwargs = \<lparr>kw_health = None, kw_mana = None, kw_experience = None,
     kw_level = None, kw_last_updated = None\<rparr>"

definition post_init :: "PlayerStats \<Rightarrow> error + PlayerStats" where
  "post_init self =
     (if health self < 0 then Inl HealthNegative
      else if level self < 1 then Inl LevelTooLow
      else Inr self)"

text \<open>
  The generated \<open>__init__\<close>: the defaults of the dataclass (\<open>last_updated\<close> from
  \<open>default_factory=datetime.now\<close>), then \<open>__post_init__\<close>.
\<close>

definition new_PlayerStats :: "stats_kwargs \<Rightarrow> int \<Rightarrow> error + PlayerStats" where
  "new_PlayerStats kw now =
     post_init
       \<lparr>health = (case kw_health kw of None \<Rightarrow> 100 | Some v \<Rightarrow> v),
        mana = (case kw_mana kw of None \<Rightarrow> 50 | Some v \<Rightarrow> v),
        experience = (case kw_experience kw of None \<Rightarrow> 0 | Some v \<Rightarrow> v),
        level = (case kw_level kw of None \<Rightarrow> 1 | Some v \<Rightarrow> v),
        last_updated = (case kw_last_updated kw of None \<Rightarrow> now | Some v \<Rightarrow> v)\<rparr>"

subsection \<open>Sessions and the manager\<close>

record position =
  pos_x :: int
  pos_y :: int
  pos_z :: int

record player =
  name :: string
  stats :: PlayerStats
  inventory :: "string list"
  position :: position

record session =
  session_id :: string  \<comment> \<open>the key \<open>'id'\<close>\<close>
  player :: player
  created_at :: "int option"  \<comment> \<open>\<open>None\<close>: what \<open>session.get('created_at')\<close> finds falsy\<close>
  last_activity :: int
  state :: string

record player_data =
  pd_name :: "string option"
  pd_stats :: "stats_kwargs option"
  pd_inventory :: "string list option"
  pd_position :: "position option"

record session_stats =
  created :: int
  active :: int
  completed :: int
  failed :: int

record manager =
  max_concurrent_sessions :: int
  active_sessions :: "(string \<times> session) list"
  stats_of :: session_stats  \<comment> \<open>the attribute \<open>session_stats\<close>\<close>

definition init :: "int \<Rightarrow> manager" where
  "init max_sessions =
     \<lparr>max_concurrent_sessions = max_sessions,
      active_sessions = [],
      stats_of = \<lparr>created = 0, active = 0, completed = 0, failed = 0\<rparr>\<rparr>"

subsection \<open>\<open>create_session\<close>\<close>

definition new_session :: "string \<Rightarrow> player_data \<Rightarrow> PlayerStats \<Rightarrow> int \<Rightarrow> session" where
  "new_session sid pd st now =
     \<lparr>session_id = sid,
      player =
        \<lparr>name = (case pd_name pd of None \<Rightarrow> ''Unknown'' | Some n \<Rightarrow> n),
         stats = st,
         inventory = (case pd_inventory pd of None \<Rightarrow> [] | Some i \<Rightarrow> i),
         position = (case pd_position pd of
                       None \<Rightarrow> \<lparr>pos_x = 0, pos_y = 0, pos_z = 0\<rparr> | Some p \<Rightarrow> p)\<rparr>,
      created_at = Some now,
      last_activity = now,
      state = ''active''\<rparr>"

definition create_session ::
  "manager \<Rightarrow> string \<Rightarrow> player_data \<Rightarrow> int \<Rightarrow> manager \<times> (error + session)" where
  "create_session self sid pd now =
     (if int (length (active_sessions self)) \<ge> max_concurrent_sessions self
      then (self, Inl (MaxSessionsReached (max_concurrent_sessions self)))
      else case map_of (active_sessions self) sid of
        Some existing \<Rightarrow> (self, Inr existing)
      | None \<Rightarrow>
         (case new_PlayerStats (case pd_stats pd of None \<Rightarrow> no_kwargs | Some kw \<Rightarrow> kw) now of
            Inl err \<Rightarrow>
              (self\<lparr>stats_of := (stats_of self)\<lparr>failed := failed (stats_of self) + 1\<rparr>\<rparr>,
               Inl err)
          | Inr st \<Rightarrow>
              (let s = new_session sid pd st now in
               (self\<lparr>active_sessions := AList.update sid s (active_sessions self),
                      stats_of := (stats_of self)
                        \<lparr>created := created (stats_of self) + 1,
                         active := active (stats_of self) + 1\<rparr>\<rparr>,
                Inr s))))"

subsection \<open>\<open>session_context\<close>\<close>

text \<open>
  The code of the scope up to \<open>yield\<close>: the session handed to the body, or the
  exception of a missing session.
\<close>

definition session_context_enter :: "manager \<Rightarrow> string \<Rightarrow> int \<Rightarrow> error + session" where
  "session_context_enter self sid now =
     (case map_of (active_sessions self) sid of
        None \<Rightarrow> Inl (SessionNotFound sid)
      | Some s \<Rightarrow> Inr (s\<lparr>last_activity := now\<rparr>))"

text \<open>The \<open>finally\<close> clause.\<close>

definition scope_finally :: "session \<Rightarrow> session" where
  "scope_finally s = (if state s \<noteq> ''error'' then s\<lparr>state := ''completed''\<rparr> else s)"

text \<open>
  The code of the scope after \<open>yield\<close>, run on the session as the body left it and on
  what the body did: returned a value, or raised.
\<close>

definition session_context_exit :: "session \<Rightarrow> error + 'a \<Rightarrow> session" where
  "session_context_exit s outcome =
     (case outcome of
        Inl err \<Rightarrow> scope_finally (s\<lparr>state := ''error''\<rparr>)
      | Inr v \<Rightarrow> scope_finally s)"

text \<open>
  A scope with its body. The body works on the session it is handed, which is the
  object the registry holds: it returns the session as it left it, with its result or
  the exception it raised. The session is written back under its key, the exception
  goes on to the caller.
\<close>

definition session_context ::
  "manager \<Rightarrow> string \<Rightarrow> int \<Rightarrow> (session \<Rightarrow> session \<times> (error + 'a)) \<Rightarrow> manager \<times> (error + 'a)" where
  "session_context self sid now body =
     (case session_context_enter self sid now of
        Inl err \<Rightarrow> (self, Inl err)
      | Inr s \<Rightarrow>
          (case body s of (s', outcome) \<Rightarrow>
             (self\<lparr>active_sessions :=
                AList.update sid (session_context_exit s' outcome) (active_sessions self)\<rparr>,
              outcome)))"

subsection \<open>\<open>update_player_stats\<close>\<close>

definition updated_data :: "PlayerStats \<Rightarrow> stats_kwargs \<Rightarrow> stats_kwargs" where
  "updated_data current_stats stat_updates =
     \<lparr>kw_health = Some (case kw_health stat_updates of
                         None \<Rightarrow> health current_stats | Some v \<Rightarrow> v),
      kw_mana = Some (case kw_mana stat_updates of
                       None \<Rightarrow> mana current_stats | Some v \<Rightarrow> v),
      kw_experience = Some (case kw_experience stat_updates of
                             None \<Rightarrow> experience current_stats | Some v \<Rightarrow> v),
      kw_level = Some (case kw_level stat_updates of
                        None \<Rightarrow> level current_stats | Some v \<Rightarrow> v),
      kw_last_updated = None\<rparr>"

definition update_body :: "stats_kwargs \<Rightarrow> int \<Rightarrow> session \<Rightarrow> session \<times> (error + bool)" where
  "update_body stat_updates now s =
     (case new_PlayerStats (updated_data (stats (player s)) stat_updates) now of
        Inl err \<Rightarrow> (s, Inl err)
      | Inr new_stats \<Rightarrow> (s\<lparr>player := (player s)\<lparr>stats := new_stats\<rparr>\<rparr>, Inr True))"

definition update_player_stats ::
  "manager \<Rightarrow> string \<Rightarrow> stats_kwargs \<Rightarrow> int \<Rightarrow> manager \<times> bool" where
  "update_player_stats self sid stat_updates now =
     (case session_context self sid now (update_body stat_updates now) of
        (self', Inl err) \<Rightarrow> (self', False)
      | (self', Inr b) \<Rightarrow> (self', b))"

subsection \<open>\<open>get_session_summary\<close>\<close>

definition total_seconds :: "int \<Rightarrow> rat" where
  "total_seconds td = of_int td / 1000000"

text \<open>The loop of \<open>_calculate_average_session_time\<close> over \<open>active_sessions.values()\<close>.\<close>

fun average_loop :: "session list \<Rightarrow> int \<Rightarrow> int \<times> int \<Rightarrow> int \<times> int" where
  "average_loop [] now (total_time, count) = (total_time, count)"
| "average_loop (s # ss) now (total_time, count) =
     (case created_at s of
        None \<Rightarrow> average_loop ss now (total_time, count)
      | Some c \<Rightarrow> average_loop ss now (total_time + (now - c), count + 1))"

definition calculate_average_session_time :: "manager \<Rightarrow> int \<Rightarrow> rat" where
  "calculate_average_session_time self now =
     (if active_sessions self = [] then 0
      else case average_loop (map snd (active_sessions self)) now (0, 0) of
        (total_time, count) \<Rightarrow>
          if count > 0 then total_seconds total_time / 60 / of_int count else 0)"

text \<open>The loop of \<open>_get_level_distribution\<close>.\<close>

fun level_loop :: "session list \<Rightarrow> (int \<times> int) list \<Rightarrow> (int \<times> int) list" where
  "level_loop [] distribution = distribution"
| "level_loop (s # ss) distribution =
     level_loop ss
       (AList.update (level (stats (player s)))
          ((case map_of distribution (level (stats (player s))) of
              None \<Rightarrow> 0 | Some n \<Rightarrow> n) + 1)
          distribution)"

definition get_level_distribution :: "manager \<Rightarrow> (int \<times> int) list" where
  "get_level_distribution self = level_loop (map snd (active_sessions self)) []"

record summary =
  statistics :: session_stats
  active_count :: int
  average_session_time :: rat
  player_levels :: "(int \<times> int) list"
  memory_usage :: rat

text \<open>
  \<open>str_len\<close> stands for \<open>len(str(self.active_sessions))\<close>, the length of the
  dictionary's printed form, which the embedding takes as given.
\<close>

definition get_session_summary ::
  "((string \<times> session) list \<Rightarrow> nat) \<Rightarrow> manager \<Rightarrow> int \<Rightarrow> summary" where
  "get_session_summary str_len self now =
     \<lparr>statistics = stats_of self,
      active_count =
        int (length [s \<leftarrow> map snd (active_sessions self). state s = ''active'']),
      average_session_time = calculate_average_session_time self now,
      player_levels = get_level_distribution self,
      memory_usage = of_nat (str_len (active_sessions self)) / 1024\<rparr>"

subsection \<open>Sequences of calls\<close>

datatype 'a call =
    CreateSession string player_data int
  | SessionContext string int "session \<Rightarrow> session \<times> (error + 'a)"
  | UpdatePlayerStats string stats_kwargs int
  | GetSessionSummary int

text \<open>
  The manager after one call, whatever the call returned or raised.
  \<open>get_session_summary\<close> assigns to nothing.
\<close>

fun after :: "manager \<Rightarrow> 'a call \<Rightarrow> manager" where
  "after self (CreateSession sid pd now) = fst (create_session self sid pd now)"
| "after self (SessionContext sid now body) = fst (session_context self sid now body)"
| "after self (UpdatePlayerStats sid stat_updates now) =
     fst (update_player_stats self sid stat_updates now)"
| "after self (GetSessionSummary now) = self"

definition run :: "manager \<Rightarrow> 'a call list \<Rightarrow> manager" where
  "run self calls = foldl after self calls"

subsection \<open>Notions of the specification\<close>

text \<open>The number of sessions in the \<open>Active\<close> state.\<close>

definition active_count_of :: "manager \<Rightarrow> nat" where
  "active_count_of self = length [p \<leftarrow> active_sessions self. state (snd p) = ''active'']"

text \<open>
  A partial-field patch applied to the stats: a field the patch names takes the
  patch's value, every other field retains its current value.
\<close>

definition patched :: "PlayerStats \<Rightarrow> stats_kwargs \<Rightarrow> PlayerStats" where
  "patched cur upd =
     \<lparr>health = (case kw_health upd of None \<Rightarrow> health cur | Some v \<Rightarrow> v),
      mana = (case kw_mana upd of None \<Rightarrow> mana cur | Some v \<Rightarrow> v),
      experience = (case kw_experience upd of None \<Rightarrow> experience cur | Some v \<Rightarrow> v),
      level = (case kw_level upd of None \<Rightarrow> level cur | Some v \<Rightarrow> v),
      last_updated = (case kw_last_updated upd of None \<Rightarrow> last_updated cur | Some v \<Rightarrow> v)\<rparr>"



subsection \<open>Example states\<close>

definition plain_player :: player_data where
  "plain_player = \<lparr>pd_name = None, pd_stats = None, pd_inventory = None, pd_position = None\<rparr>"

definition default_stats :: "int \<Rightarrow> PlayerStats" where
  "default_stats now = \<lparr>health = 100, mana = 50, experience = 0, level = 1, last_updated = now\<rparr>"

text \<open>A manager of capacity 1 after \<open>create_session("a", {})\<close> at time 0.\<close>

definition one_session :: manager where
  "one_session = fst (create_session (init 1) ''a'' plain_player 0)"

text \<open>A body that does nothing and returns.\<close>

definition pass_body :: "session \<Rightarrow> session \<times> (error + unit)" where
  "pass_body s = (s, Inr ())"

text \<open>A body that does nothing and raises.\<close>

definition raise_body :: "session \<Rightarrow> session \<times> (error + unit)" where
  "raise_body s = (s, Inl (BodyError ''boom''))"

text \<open>A body that returns the state it finds the session in.\<close>

definition peek_body :: "session \<Rightarrow> session \<times> (error + string)" where
  "peek_body s = (s, Inr (state s))"

text \<open>A manager of capacity 2 whose only session has been through one scope.\<close>

definition retired :: manager where
  "retired =
     fst (session_context (fst (create_session (init 2) ''a'' plain_player 0)) ''a'' 1 pass_body)"

text \<open>A manager of capacity 1 whose only session has been through one scope.\<close>

definition retired_full :: manager where
  "retired_full = fst (session_context one_session ''a'' 1 pass_body)"

text \<open>A manager of capacity 2 whose only session has been through a failing scope.\<close>

definition errored :: manager where
  "errored =
     fst (session_context (fst (create_session (init 2) ''a'' plain_player 0)) ''a'' 1 raise_body)"

text \<open>A player whose stats ask for a negative health.\<close>

definition negative_health :: player_data where
  "negative_health = plain_player\<lparr>pd_stats := Some (no_kwargs\<lparr>kw_health := Some (- 5)\<rparr>)\<rparr>"

subsection \<open>The invariant of the counters\<close>

definition counters_ok :: "manager \<Rightarrow> bool" where
  "counters_ok self \<longleftrightarrow>
     completed (stats_of self) = 0 \<and> active (stats_of self) = created (stats_of self)"

section \<open>Properties\<close>

subsection \<open>Evaluation of the examples\<close>

lemma new_PlayerStats_default: "new_PlayerStats no_kwargs now = Inr (default_stats now)"
  by (simp add: new_PlayerStats_def no_kwargs_def post_init_def default_stats_def)

lemma one_session_eval:
  "one_session =
     \<lparr>max_concurrent_sessions = 1,
      active_sessions = [(''a'', new_session ''a'' plain_player (default_stats 0) 0)],
      stats_of = \<lparr>created = 1, active = 1, completed = 0, failed = 0\<rparr>\<rparr>"
  by (simp add: one_session_def create_session_def init_def plain_player_def
      new_PlayerStats_default Let_def)

lemma retired_full_eval:
  "retired_full =
     \<lparr>max_concurrent_sessions = 1,
      active_sessions =
        [(''a'', (new_session ''a'' plain_player (default_stats 0) 0)
                   \<lparr>last_activity := 1, state := ''completed''\<rparr>)],
      stats_of = \<lparr>created = 1, active = 1, completed = 0, failed = 0\<rparr>\<rparr>"
  by (simp add: retired_full_def one_session_eval session_context_def
      session_context_enter_def session_context_exit_def scope_finally_def pass_body_def
      new_session_def)

lemma retired_eval:
  "retired =
     \<lparr>max_concurrent_sessions = 2,
      active_sessions =
        [(''a'', (new_session ''a'' plain_player (default_stats 0) 0)
                   \<lparr>last_activity := 1, state := ''completed''\<rparr>)],
      stats_of = \<lparr>created = 1, active = 1, completed = 0, failed = 0\<rparr>\<rparr>"
  by (simp add: retired_def create_session_def init_def plain_player_def
      new_PlayerStats_default Let_def session_context_def
      session_context_enter_def session_context_exit_def scope_finally_def pass_body_def
      new_session_def)

lemma errored_eval:
  "errored =
     \<lparr>max_concurrent_sessions = 2,
      active_sessions =
        [(''a'', (new_session ''a'' plain_player (default_stats 0) 0)
                   \<lparr>last_activity := 1, state := ''error''\<rparr>)],
      stats_of = \<lparr>created = 1, active = 1, completed = 0, failed = 0\<rparr>\<rparr>"
  by (simp add: errored_def create_session_def init_def plain_player_def
      new_PlayerStats_default Let_def session_context_def
      session_context_enter_def session_context_exit_def scope_finally_def raise_body_def
      new_session_def)

subsection \<open>Helper facts\<close>

lemma new_PlayerStats_cases:
  "new_PlayerStats kw now = Inl err \<Longrightarrow> err = HealthNegative \<or> err = LevelTooLow"
  by (auto simp: new_PlayerStats_def post_init_def split: if_splits)

lemma create_session_registers:
  "create_session self sid pd now = (self', Inr s) \<Longrightarrow> map_of (active_sessions self') sid = Some s"
  by (auto simp: create_session_def Let_def update_conv' split: if_splits option.splits sum.splits)

lemma session_context_present:
  assumes "map_of (active_sessions self) sid = Some s"
  shows "session_context self sid now body =
    (self\<lparr>active_sessions :=
        AList.update sid
          (session_context_exit (fst (body (s\<lparr>last_activity := now\<rparr>)))
             (snd (body (s\<lparr>last_activity := now\<rparr>))))
          (active_sessions self)\<rparr>,
     snd (body (s\<lparr>last_activity := now\<rparr>)))"
  using assms
  by (simp add: session_context_def session_context_enter_def split: prod.splits)

lemma session_after_scope:
  assumes "map_of (active_sessions self) sid = Some s"
  shows "map_of (active_sessions (fst (session_context self sid now body))) sid =
    Some (session_context_exit (fst (body (s\<lparr>last_activity := now\<rparr>)))
             (snd (body (s\<lparr>last_activity := now\<rparr>))))"
  by (simp add: session_context_present [OF assms] update_conv')

lemma update_body_eq:
  "update_body upd now s =
     (if 0 \<le> health (patched (stats (player s)) upd) \<and> 1 \<le> level (patched (stats (player s)) upd)
      then (s\<lparr>player := (player s)\<lparr>stats := (patched (stats (player s)) upd)\<lparr>last_updated := now\<rparr>\<rparr>\<rparr>,
            Inr True)
      else (s, Inl (if health (patched (stats (player s)) upd) < 0
                    then HealthNegative else LevelTooLow)))"
  by (simp add: update_body_def updated_data_def new_PlayerStats_def post_init_def patched_def
      split: option.splits)

lemma update_absent:
  "map_of (active_sessions self) sid = None \<Longrightarrow> update_player_stats self sid upd now = (self, False)"
  by (simp add: update_player_stats_def session_context_def session_context_enter_def)

lemma update_present_result:
  assumes "map_of (active_sessions self) sid = Some s"
  shows "snd (update_player_stats self sid upd now) =
     (0 \<le> health (patched (stats (player s)) upd) \<and> 1 \<le> level (patched (stats (player s)) upd))"
  by (simp add: update_player_stats_def session_context_present [OF assms] update_body_eq)

lemma update_present_stats:
  assumes "map_of (active_sessions self) sid = Some s"
  shows "map_option (\<lambda>x. stats (player x))
       (map_of (active_sessions (fst (update_player_stats self sid upd now))) sid) =
     Some (if 0 \<le> health (patched (stats (player s)) upd) \<and> 1 \<le> level (patched (stats (player s)) upd)
           then (patched (stats (player s)) upd)\<lparr>last_updated := now\<rparr>
           else stats (player s))"
  by (simp add: update_player_stats_def session_context_present [OF assms] update_body_eq
      update_conv' session_context_exit_def scope_finally_def)


lemma session_context_stats_of:
  "stats_of (fst (session_context self sid now body)) = stats_of self"
  by (simp add: session_context_def split: sum.splits prod.splits)

lemma update_player_stats_stats_of:
  "stats_of (fst (update_player_stats self sid upd now)) = stats_of self"
proof -
  have "fst (update_player_stats self sid upd now) =
      fst (session_context self sid now (update_body upd now))"
    by (simp add: update_player_stats_def split: prod.splits sum.splits)
  then show ?thesis by (simp add: session_context_stats_of)
qed

lemma create_session_counters:
  "counters_ok self \<Longrightarrow> counters_ok (fst (create_session self sid pd now))"
  by (simp add: counters_ok_def create_session_def Let_def split: option.splits sum.splits)

lemma after_counters: "counters_ok self \<Longrightarrow> counters_ok (after self c)"
  by (cases c)
     (simp_all add: create_session_counters,
      simp_all add: counters_ok_def session_context_stats_of update_player_stats_stats_of)

lemma run_counters: "counters_ok self \<Longrightarrow> counters_ok (run self calls)"
  unfolding run_def by (induction calls arbitrary: self) (simp_all add: after_counters)

text \<open>
  The association list holds one pair for each key, so its length is \<open>len\<close> of the
  dictionary.
\<close>

lemma after_distinct:
  "distinct (map fst (active_sessions self)) \<Longrightarrow>
   distinct (map fst (active_sessions (after self c)))"
  by (cases c)
     (auto simp: create_session_def update_player_stats_def session_context_def Let_def
        distinct_update split: option.splits sum.splits prod.splits)

lemma run_distinct: "distinct (map fst (active_sessions (run (init n) calls)))"
proof -
  have "distinct (map fst (active_sessions self)) \<Longrightarrow>
      distinct (map fst (active_sessions (run self calls)))" for self :: manager
    unfolding run_def by (induction calls arbitrary: self) (simp_all add: after_distinct)
  then show ?thesis by (simp add: init_def)
qed

subsection \<open>Admission\<close>

text \<open>
  Claim C1, as amended. For every call \<open>create_session(id, initialFields)\<close> where
  \<open>id\<close> is not already present in the registry, the call fails with the capacity
  error exactly when the number of sessions in the registry, whatever their state,
  is greater than or equal to \<open>max_concurrent_sessions\<close>: the check is
  \<open>len(self.active_sessions) >= self.max_concurrent_sessions\<close>, and a session stays
  in the registry when it becomes \<open>completed\<close> or \<open>error\<close>.
\<close>

theorem capacity_counts_every_session:
  assumes "map_of (active_sessions self) sid = None"
  shows "(\<exists>n. snd (create_session self sid pd now) = Inl (MaxSessionsReached n))
     \<longleftrightarrow> max_concurrent_sessions self \<le> int (length (active_sessions self))"
  using assms
  by (auto simp: create_session_def Let_def split: sum.splits dest: new_PlayerStats_cases)

text \<open>
  The theorem at a registry of capacity 1 that holds one completed session: the key
  \<open>b\<close> is new, the registry is full, and the call fails with the capacity error.
\<close>

theorem capacity_counts_every_session_witness:
  "map_of (active_sessions retired_full) ''b'' = None
   \<and> ((\<exists>n. snd (create_session retired_full ''b'' plain_player 2) = Inl (MaxSessionsReached n))
     \<longleftrightarrow> max_concurrent_sessions retired_full \<le> int (length (active_sessions retired_full)))
   \<and> max_concurrent_sessions retired_full \<le> int (length (active_sessions retired_full))"
  using capacity_counts_every_session [of retired_full "''b''" plain_player 2]
  by (simp add: retired_full_eval)

text \<open>
  Claim C1 as stated fails. After \<open>create_session("a", {})\<close> and one scope on \<open>a\<close>
  that exits normally, a manager of capacity 1 holds no session in the \<open>active\<close>
  state, so the number of active sessions (0) is below the bound (1); yet creating
  the new key \<open>b\<close> fails with the capacity error.
\<close>

theorem capacity_ignores_state_counterexample:
  "map_of (active_sessions retired_full) ''b'' = None
   \<and> int (active_count_of retired_full) < max_concurrent_sessions retired_full
   \<and> snd (create_session retired_full ''b'' plain_player 2) = Inl (MaxSessionsReached 1)"
  by (simp add: retired_full_eval active_count_of_def create_session_def new_session_def)

subsection \<open>Creating a session twice\<close>

text \<open>
  Claim C2, as amended. For every pair of calls \<open>create_session(id, f1)\<close> then
  \<open>create_session(id, f2)\<close> on the same id where the first call succeeded, the second
  call never changes the manager (registry and counters); when the registry holds
  fewer than \<open>max_concurrent_sessions\<close> sessions after the first call it returns the
  first session with its fields unchanged and raises nothing, whatever \<open>f2\<close> is; when
  the registry is at the bound it fails with the capacity error, because the capacity
  check comes before the lookup of the id.
\<close>

theorem duplicate_create_below_capacity:
  assumes "create_session self sid f1 now1 = (self1, Inr s1)"
  shows "create_session self1 sid f2 now2 =
     (self1, if int (length (active_sessions self1)) < max_concurrent_sessions self1
             then Inr s1 else Inl (MaxSessionsReached (max_concurrent_sessions self1)))"
  using create_session_registers [OF assms]
  by (simp add: create_session_def)

text \<open>
  The theorem at a manager of capacity 2: the second call, with a negative health in
  its fields, returns the session of the first call and leaves the manager as it was.
\<close>

theorem duplicate_create_below_capacity_witness:
  "create_session (init 2) ''a'' plain_player 0 =
     (fst (create_session (init 2) ''a'' plain_player 0),
      Inr (new_session ''a'' plain_player (default_stats 0) 0))
   \<and> create_session (fst (create_session (init 2) ''a'' plain_player 0)) ''a''
        (plain_player\<lparr>pd_stats := Some (no_kwargs\<lparr>kw_health := Some (-5)\<rparr>)\<rparr>) 1 =
     (fst (create_session (init 2) ''a'' plain_player 0),
      Inr (new_session ''a'' plain_player (default_stats 0) 0))"
proof -
  have first: "create_session (init 2) ''a'' plain_player 0 =
     (fst (create_session (init 2) ''a'' plain_player 0),
      Inr (new_session ''a'' plain_player (default_stats 0) 0))"
    by (simp add: create_session_def init_def plain_player_def new_PlayerStats_default Let_def)
  have below: "int (length (active_sessions (fst (create_session (init 2) ''a'' plain_player 0))))
      < max_concurrent_sessions (fst (create_session (init 2) ''a'' plain_player 0))"
    by (simp add: create_session_def init_def plain_player_def new_PlayerStats_default Let_def)
  show ?thesis
    using first below duplicate_create_below_capacity [OF first,
        of "plain_player\<lparr>pd_stats := Some (no_kwargs\<lparr>kw_health := Some (-5)\<rparr>)\<rparr>" 1]
    by simp
qed

text \<open>
  Claim C2 as stated fails. With capacity 1, \<open>create_session("a", {})\<close> succeeds and
  fills the registry; the second \<open>create_session("a", {})\<close> raises the capacity
  error instead of returning the first session.
\<close>

theorem duplicate_create_at_capacity_counterexample:
  "create_session (init 1) ''a'' plain_player 0 =
     (one_session, Inr (new_session ''a'' plain_player (default_stats 0) 0))
   \<and> snd (create_session one_session ''a'' plain_player 1) = Inl (MaxSessionsReached 1)"
  by (simp add: one_session_eval create_session_def init_def plain_player_def
      new_PlayerStats_default Let_def)

subsection \<open>Scopes\<close>



text \<open>
  Claim C4, as amended. On entry to a scope: for every id absent from the registry
  the scope fails with \<open>SessionNotFound\<close> and changes nothing; for every id present
  the session's \<open>last_activity\<close> is set to the current time before the body runs, and
  the body is handed the session in the state it was left in: the entry code does not
  write \<open>state\<close>, so a \<open>completed\<close> or \<open>error\<close> session is not marked \<open>active\<close> again.
\<close>

theorem scope_entry:
  "(map_of (active_sessions self) sid = None \<longrightarrow>
      session_context self sid now body = (self, Inl (SessionNotFound sid)))
   \<and> (\<forall>s. map_of (active_sessions self) sid = Some s \<longrightarrow>
      session_context_enter self sid now = Inr (s\<lparr>last_activity := now\<rparr>)
      \<and> last_activity (s\<lparr>last_activity := now\<rparr>) = now
      \<and> state (s\<lparr>last_activity := now\<rparr>) = state s
      \<and> session_context self sid now body =
          (self\<lparr>active_sessions :=
              AList.update sid
                (session_context_exit (fst (body (s\<lparr>last_activity := now\<rparr>)))
                   (snd (body (s\<lparr>last_activity := now\<rparr>))))
                (active_sessions self)\<rparr>,
           snd (body (s\<lparr>last_activity := now\<rparr>))))"
  by (simp add: session_context_present)
     (simp add: session_context_def session_context_enter_def)

text \<open>
  The theorem at an absent id, and at a session that an earlier scope has completed.
\<close>

theorem scope_entry_witness:
  "map_of (active_sessions one_session) ''zz'' = None
   \<and> session_context one_session ''zz'' 3 pass_body = (one_session, Inl (SessionNotFound ''zz''))
   \<and> map_of (active_sessions retired) ''a'' =
       Some ((new_session ''a'' plain_player (default_stats 0) 0)
               \<lparr>last_activity := 1, state := ''completed''\<rparr>)
   \<and> session_context_enter retired ''a'' 5 =
       Inr ((new_session ''a'' plain_player (default_stats 0) 0)
               \<lparr>last_activity := 5, state := ''completed''\<rparr>)"
proof -
  have absent: "map_of (active_sessions one_session) ''zz'' = None"
    by (simp add: one_session_eval)
  have present: "map_of (active_sessions retired) ''a'' =
       Some ((new_session ''a'' plain_player (default_stats 0) 0)
               \<lparr>last_activity := 1, state := ''completed''\<rparr>)"
    by (simp add: retired_eval)
  show ?thesis
    using absent present
      scope_entry [of one_session "''zz''" 3 pass_body]
      scope_entry [of retired "''a''" 5 pass_body]
    by simp
qed

text \<open>
  Claim C4 as stated fails. A session that one scope has left \<open>completed\<close> is handed
  to the body of the next scope still \<open>completed\<close>, not \<open>active\<close>: a body that returns
  the state it finds returns \<open>completed\<close>.
\<close>

theorem scope_entry_keeps_state_counterexample:
  "map_option state (map_of (active_sessions retired) ''a'') = Some ''completed''
   \<and> map_sum id state (session_context_enter retired ''a'' 5) = Inr ''completed''
   \<and> snd (session_context retired ''a'' 5 peek_body) = Inr ''completed''"
  by (simp add: retired_eval session_context_def session_context_enter_def peek_body_def
      new_session_def)

text \<open>
  Claim C7. For every scope whose body completes without raising, the session's state
  on exit is \<open>completed\<close>, unless the state is \<open>error\<close> when the body ends, in which
  case \<open>error\<close> is kept; the body's result is returned.
\<close>

theorem normal_exit_completes_unless_error:
  assumes "map_of (active_sessions self) sid = Some s"
    and "body (s\<lparr>last_activity := now\<rparr>) = (s', Inr v)"
  shows "snd (session_context self sid now body) = Inr v
    \<and> map_option state (map_of (active_sessions (fst (session_context self sid now body))) sid)
        = Some (if state s' = ''error'' then ''error'' else ''completed'')"
proof
  show "snd (session_context self sid now body) = Inr v"
    using assms by (simp add: session_context_present)
  show "map_option state
      (map_of (active_sessions (fst (session_context self sid now body))) sid)
        = Some (if state s' = ''error'' then ''error'' else ''completed'')"
    using assms by (simp add: session_after_scope session_context_exit_def scope_finally_def)
qed

text \<open>
  The theorem at a fresh session, which ends \<open>completed\<close>, and at a session that a
  failing scope left in \<open>error\<close>, which a later normal exit leaves in \<open>error\<close>.
\<close>

theorem normal_exit_completes_unless_error_witness:
  "map_of (active_sessions one_session) ''a'' =
      Some (new_session ''a'' plain_player (default_stats 0) 0)
   \<and> snd (session_context one_session ''a'' 1 pass_body) = Inr ()
   \<and> map_option state
       (map_of (active_sessions (fst (session_context one_session ''a'' 1 pass_body))) ''a'')
       = Some ''completed''
   \<and> map_option state (map_of (active_sessions errored) ''a'') = Some ''error''
   \<and> snd (session_context errored ''a'' 2 pass_body) = Inr ()
   \<and> map_option state
       (map_of (active_sessions (fst (session_context errored ''a'' 2 pass_body))) ''a'')
       = Some ''error''"
proof -
  have p1: "map_of (active_sessions one_session) ''a'' =
      Some (new_session ''a'' plain_player (default_stats 0) 0)"
    by (simp add: one_session_eval)
  have b1: "pass_body ((new_session ''a'' plain_player (default_stats 0) 0)\<lparr>last_activity := 1\<rparr>) =
      ((new_session ''a'' plain_player (default_stats 0) 0)\<lparr>last_activity := 1\<rparr>, Inr ())"
    by (simp add: pass_body_def)
  have p2: "map_of (active_sessions errored) ''a'' =
      Some ((new_session ''a'' plain_player (default_stats 0) 0)
              \<lparr>last_activity := 1, state := ''error''\<rparr>)"
    by (simp add: errored_eval)
  have b2: "pass_body ((new_session ''a'' plain_player (default_stats 0) 0)
              \<lparr>last_activity := 1, state := ''error''\<rparr>\<lparr>last_activity := 2\<rparr>) =
      ((new_session ''a'' plain_player (default_stats 0) 0)
              \<lparr>last_activity := 1, state := ''error''\<rparr>\<lparr>last_activity := 2\<rparr>, Inr ())"
    by (simp add: pass_body_def)
  show ?thesis
    using p1 p2
      normal_exit_completes_unless_error [where body = pass_body and now = 1, OF p1 b1]
      normal_exit_completes_unless_error [where body = pass_body and now = 2, OF p2 b2]
    by (simp add: new_session_def)
qed

subsection \<open>Validation at creation\<close>

text \<open>
  Claim C5. For every call \<open>create_session(id, initialFields)\<close> with \<open>id\<close> not present
  and capacity available, if the stats of \<open>initialFields\<close> give a health below 0 or a
  level below 1, the call fails with one of the two \<open>ValueError\<close>s of the validation
  and the registry is the same before and after: no entry for \<open>id\<close> is registered.
\<close>

theorem invalid_create_registers_nothing:
  assumes "map_of (active_sessions self) sid = None"
    and "int (length (active_sessions self)) < max_concurrent_sessions self"
    and "pd_stats pd = Some kw"
    and "(\<exists>h. kw_health kw = Some h \<and> h < 0) \<or> (\<exists>l. kw_level kw = Some l \<and> l < 1)"
  shows "(snd (create_session self sid pd now) = Inl HealthNegative
          \<or> snd (create_session self sid pd now) = Inl LevelTooLow)
    \<and> active_sessions (fst (create_session self sid pd now)) = active_sessions self
    \<and> map_of (active_sessions (fst (create_session self sid pd now))) sid = None"
  using assms
  by (auto simp: create_session_def new_PlayerStats_def post_init_def)

text \<open>The theorem at an empty manager of capacity 2 and a health of \<open>-5\<close>.\<close>

theorem invalid_create_registers_nothing_witness:
  "map_of (active_sessions (init 2)) ''a'' = None
   \<and> int (length (active_sessions (init 2))) < max_concurrent_sessions (init 2)
   \<and> pd_stats negative_health = Some (no_kwargs\<lparr>kw_health := Some (- 5)\<rparr>)
   \<and> kw_health (no_kwargs\<lparr>kw_health := Some (- 5)\<rparr>) = Some (- 5)
   \<and> snd (create_session (init 2) ''a'' negative_health 0) = Inl HealthNegative
   \<and> active_sessions (fst (create_session (init 2) ''a'' negative_health 0)) = []"
proof -
  have absent: "map_of (active_sessions (init 2)) ''a'' = None"
    by (simp add: init_def)
  have room: "int (length (active_sessions (init 2))) < max_concurrent_sessions (init 2)"
    by (simp add: init_def)
  have given: "pd_stats negative_health = Some (no_kwargs\<lparr>kw_health := Some (- 5)\<rparr>)"
    by (simp add: negative_health_def)
  have bad: "(\<exists>h. kw_health (no_kwargs\<lparr>kw_health := Some (- 5)\<rparr>) = Some h \<and> h < 0)
      \<or> (\<exists>l. kw_level (no_kwargs\<lparr>kw_health := Some (- 5)\<rparr>) = Some l \<and> l < 1)"
    by simp
  have raised: "snd (create_session (init 2) ''a'' negative_health 0) \<noteq> Inl LevelTooLow"
    by (simp add: create_session_def init_def negative_health_def new_PlayerStats_def
        post_init_def no_kwargs_def plain_player_def)
  show ?thesis
    using absent room given raised
      invalid_create_registers_nothing [OF absent room given bad, of 0]
    by (simp add: init_def)
qed

subsection \<open>\<open>update_player_stats\<close>\<close>

text \<open>
  Claim C6, as amended. For every call \<open>update_player_stats(id, updates)\<close>: if \<open>id\<close>
  is absent from the registry the call returns \<open>False\<close> without raising and changes
  nothing; if \<open>id\<close> is present the call returns \<open>True\<close> exactly when the patched stats
  pass the validation (health at least 0 and level at least 1). On \<open>True\<close> the
  session's stats are replaced: each of \<open>health\<close>, \<open>mana\<close>, \<open>experience\<close> and \<open>level\<close>
  takes the value \<open>updates\<close> gives it and retains its current value when \<open>updates\<close>
  does not name it, while \<open>last_updated\<close> is set to the time of the update. On
  \<open>False\<close> the session's stats are unchanged.
\<close>

theorem update_player_stats_contract:
  "(map_of (active_sessions self) sid = None \<longrightarrow>
      update_player_stats self sid upd now = (self, False))
   \<and> (\<forall>s. map_of (active_sessions self) sid = Some s \<longrightarrow>
        snd (update_player_stats self sid upd now) =
          (0 \<le> health (patched (stats (player s)) upd)
           \<and> 1 \<le> level (patched (stats (player s)) upd))
        \<and> map_option (\<lambda>x. stats (player x))
            (map_of (active_sessions (fst (update_player_stats self sid upd now))) sid) =
          Some (if snd (update_player_stats self sid upd now)
                then (patched (stats (player s)) upd)\<lparr>last_updated := now\<rparr>
                else stats (player s)))"
  by (simp add: update_absent update_present_result update_present_stats)

text \<open>
  The theorem at a missing id, at a patch of \<open>mana\<close> alone, and at a patch that sets
  the level to 0.
\<close>

theorem update_player_stats_contract_witness:
  "map_of (active_sessions one_session) ''missing'' = None
   \<and> update_player_stats one_session ''missing'' no_kwargs 7 = (one_session, False)
   \<and> map_of (active_sessions one_session) ''a'' =
       Some (new_session ''a'' plain_player (default_stats 0) 0)
   \<and> snd (update_player_stats one_session ''a'' (no_kwargs\<lparr>kw_mana := Some 9\<rparr>) 7) = True
   \<and> map_option (\<lambda>x. stats (player x))
       (map_of (active_sessions
          (fst (update_player_stats one_session ''a'' (no_kwargs\<lparr>kw_mana := Some 9\<rparr>) 7))) ''a'')
       = Some \<lparr>health = 100, mana = 9, experience = 0, level = 1, last_updated = 7\<rparr>
   \<and> snd (update_player_stats one_session ''a'' (no_kwargs\<lparr>kw_level := Some 0\<rparr>) 7) = False
   \<and> map_option (\<lambda>x. stats (player x))
       (map_of (active_sessions
          (fst (update_player_stats one_session ''a'' (no_kwargs\<lparr>kw_level := Some 0\<rparr>) 7))) ''a'')
       = Some (default_stats 0)"
proof -
  have absent: "map_of (active_sessions one_session) ''missing'' = None"
    by (simp add: one_session_eval)
  have present: "map_of (active_sessions one_session) ''a'' =
       Some (new_session ''a'' plain_player (default_stats 0) 0)"
    by (simp add: one_session_eval)
  have cur: "stats (player (new_session ''a'' plain_player (default_stats 0) 0)) = default_stats 0"
    by (simp add: new_session_def)
  have p1: "patched (default_stats 0) (no_kwargs\<lparr>kw_mana := Some 9\<rparr>) =
      \<lparr>health = 100, mana = 9, experience = 0, level = 1, last_updated = 0\<rparr>"
    by (simp add: patched_def default_stats_def no_kwargs_def)
  have p2: "patched (default_stats 0) (no_kwargs\<lparr>kw_level := Some 0\<rparr>) =
      \<lparr>health = 100, mana = 50, experience = 0, level = 0, last_updated = 0\<rparr>"
    by (simp add: patched_def default_stats_def no_kwargs_def)
  note mana = update_player_stats_contract
      [of one_session "''a''" "no_kwargs\<lparr>kw_mana := Some 9\<rparr>" 7,
       THEN conjunct2, rule_format, OF present]
  note lvl = update_player_stats_contract
      [of one_session "''a''" "no_kwargs\<lparr>kw_level := Some 0\<rparr>" 7,
       THEN conjunct2, rule_format, OF present]
  have r0: "update_player_stats one_session ''missing'' no_kwargs 7 = (one_session, False)"
    using absent update_player_stats_contract [of one_session "''missing''" no_kwargs 7]
    by simp
  have r1: "snd (update_player_stats one_session ''a'' (no_kwargs\<lparr>kw_mana := Some 9\<rparr>) 7) = True"
    using mana [THEN conjunct1] by (simp add: cur p1)
  have s1: "map_option (\<lambda>x. stats (player x))
       (map_of (active_sessions
          (fst (update_player_stats one_session ''a'' (no_kwargs\<lparr>kw_mana := Some 9\<rparr>) 7))) ''a'')
       = Some \<lparr>health = 100, mana = 9, experience = 0, level = 1, last_updated = 7\<rparr>"
    unfolding mana [THEN conjunct2] r1 by (simp add: cur p1)
  have r2: "snd (update_player_stats one_session ''a'' (no_kwargs\<lparr>kw_level := Some 0\<rparr>) 7) = False"
    using lvl [THEN conjunct1] by (simp add: cur p2)
  have s2: "map_option (\<lambda>x. stats (player x))
       (map_of (active_sessions
          (fst (update_player_stats one_session ''a'' (no_kwargs\<lparr>kw_level := Some 0\<rparr>) 7))) ''a'')
       = Some (default_stats 0)"
    unfolding lvl [THEN conjunct2] r2 by (simp add: cur)
  show ?thesis
    using absent present r0 r1 s1 r2 s2 by blast
qed

text \<open>
  Claim C6 as stated fails. An update that names no field returns \<open>True\<close>, and the
  stats it leaves differ from the stats with every field retained: \<open>last_updated\<close>
  was 0 and is 7, the time of the update.
\<close>

theorem update_refreshes_last_updated_counterexample:
  "snd (update_player_stats one_session ''a'' no_kwargs 7) = True
   \<and> map_option (\<lambda>x. stats (player x))
       (map_of (active_sessions (fst (update_player_stats one_session ''a'' no_kwargs 7))) ''a'')
       = Some (default_stats 7)
   \<and> map_option (\<lambda>x. patched (stats (player x)) no_kwargs)
       (map_of (active_sessions one_session) ''a'') = Some (default_stats 0)
   \<and> default_stats 7 \<noteq> default_stats 0"
  by (simp add: one_session_eval update_player_stats_def session_context_def
      session_context_enter_def session_context_exit_def scope_finally_def update_body_eq
      patched_def no_kwargs_def default_stats_def new_session_def)

subsection \<open>The summary\<close>



subsection \<open>The counters\<close>

text \<open>
  Claim C10. In every state reached from a new manager by any sequence of
  \<open>create_session\<close>, \<open>session_context\<close>, \<open>update_player_stats\<close> and
  \<open>get_session_summary\<close> calls, the counter \<open>completed\<close> is 0 and the counter
  \<open>active\<close> equals the counter \<open>created\<close>, in the manager and in the statistics the
  summary reports.
\<close>

theorem counters_never_follow_states:
  "completed (stats_of (run (init n) calls)) = 0
   \<and> active (stats_of (run (init n) calls)) = created (stats_of (run (init n) calls))
   \<and> completed (statistics (get_session_summary str_len (run (init n) calls) now)) = 0
   \<and> active (statistics (get_session_summary str_len (run (init n) calls) now)) =
       created (statistics (get_session_summary str_len (run (init n) calls) now))"
proof -
  have "counters_ok (init n)" by (simp add: counters_ok_def init_def)
  then have "counters_ok (run (init n) calls)" by (rule run_counters)
  then show ?thesis by (simp add: counters_ok_def get_session_summary_def)
qed

text \<open>
  The theorem at a session that a scope has completed: the session's state is
  \<open>completed\<close>, the counter \<open>completed\<close> is 0 and the counter \<open>active\<close> is 1.
\<close>

theorem counters_never_follow_states_witness:
  "run (init 2) [CreateSession ''a'' plain_player 0, SessionContext ''a'' 1 pass_body] = retired
   \<and> map_option state (map_of (active_sessions retired) ''a'') = Some ''completed''
   \<and> completed (stats_of retired) = 0
   \<and> active (stats_of retired) = 1
   \<and> created (stats_of retired) = 1"
proof -
  have r: "run (init 2) [CreateSession ''a'' plain_player 0, SessionContext ''a'' 1 pass_body]
      = retired"
    by (simp add: run_def retired_def)
  show ?thesis
    using r counters_never_follow_states
      [of 2 "[CreateSession ''a'' plain_player 0, SessionContext ''a'' 1 pass_body]"]
    by (simp add: retired_eval new_session_def)
qed

end
